theory Spec2Isabelle
  imports Complex_Main
begin

section \<open>Diabetic-retinopathy detection app: the prediction workflow of main.py\<close>

text \<open>
  The development embeds \<^verbatim>\<open>main.py\<close>: the module constants, the prediction lines of
  \<^verbatim>\<open>home_page\<close>, the forms of the authentication page, the history and profile pages
  and the router \<^verbatim>\<open>main\<close>. Classifier scores are \<^typ>\<open>real\<close> numbers (a NaN score is
  outside the model). Every Python exception is a value of \<open>error\<close>.
\<close>

subsection \<open>Errors\<close>

datatype error =
    IndexError
  | ValueError
  | TypeError
  | StorageError
  | DecodeError
  | PersistenceError
  | DuplicateUsername
  | ValidationError
  | InvalidCredentials
  | OtherError string

subsection \<open>Module constants\<close>

definition image_height :: nat where
  "image_height = 150"

definition image_width :: nat where
  "image_width = 150"

definition class_names :: "string list" where
  "class_names = [''Mild'', ''Moderate'', ''Severe'', ''Proliferative DR'']"

subsection \<open>The numpy and list operations of the prediction lines\<close>

text \<open>
  \<^verbatim>\<open>np.argmax(prediction)\<close> without an axis works on the flattened array and returns
  the index of the first occurrence of the maximum; it raises ValueError on an empty array.
  The loop keeps the best index and value seen so far and replaces them only by a strictly
  greater value.
\<close>

fun argmax_loop :: "real list \<Rightarrow> nat \<Rightarrow> nat \<Rightarrow> real \<Rightarrow> nat" where
  "argmax_loop [] i best bv = best"
| "argmax_loop (x # xs) i best bv =
     (if bv < x then argmax_loop xs (Suc i) i x else argmax_loop xs (Suc i) best bv)"

definition flatten :: "real list list \<Rightarrow> real list" where
  "flatten prediction = concat prediction"

definition np_argmax :: "real list list \<Rightarrow> error + nat" where
  "np_argmax prediction =
     (case flatten prediction of
        [] \<Rightarrow> Inl ValueError
      | x # xs \<Rightarrow> Inr (argmax_loop xs 1 0 x))"

text \<open>
  Python list and array indexing with a non-negative index: IndexError out of range.
  \<^verbatim>\<open>prediction[0][i]\<close> indexes the first row of the two-dimensional array.
\<close>

definition index :: "'a list \<Rightarrow> nat \<Rightarrow> error + 'a" where
  "index xs i = (if i < length xs then Inr (xs ! i) else Inl IndexError)"

definition index2 :: "real list list \<Rightarrow> nat \<Rightarrow> error + real" where
  "index2 prediction i =
     (case index prediction 0 of
        Inl e \<Rightarrow> Inl e
      | Inr row \<Rightarrow> index row i)"

text \<open>
  Lines 119 to 121 of \<^verbatim>\<open>home_page\<close>: the arg-max index, the class name at that index and
  the score of the first row at that index, in the order in which the source evaluates them.
\<close>

definition classify :: "real list list \<Rightarrow> error + (nat \<times> string \<times> real)" where
  "classify prediction =
     (case np_argmax prediction of
        Inl e \<Rightarrow> Inl e
      | Inr predicted_class_index \<Rightarrow>
          (case index class_names predicted_class_index of
             Inl e \<Rightarrow> Inl e
           | Inr predicted_class \<Rightarrow>
               (case index2 prediction predicted_class_index of
                  Inl e \<Rightarrow> Inl e
                | Inr conf \<Rightarrow> Inr (predicted_class_index, predicted_class, conf))))"

subsection \<open>Remedy table\<close>

text \<open>
  \<^verbatim>\<open>remedies_data\<close> is the dictionary read from \<^verbatim>\<open>remedies.json\<close> when the module is
  loaded; the file is not part of the sources, so the table is a parameter (a map from class
  label to advisory text). \<^verbatim>\<open>remedies_data.get(label, 'No remedy available')\<close> is line 138.
\<close>

definition remedy_lookup :: "(string \<rightharpoonup> string) \<Rightarrow> string \<Rightarrow> string" where
  "remedy_lookup remedies_data label =
     (case remedies_data label of
        Some text \<Rightarrow> text
      | None \<Rightarrow> ''No remedy available'')"

subsection \<open>Rows, the Database interface and the helpers of utils\<close>

text \<open>
  A user is the dictionary returned by \<^verbatim>\<open>db.authenticate_user\<close> (key \<^verbatim>\<open>id\<close> is field
  \<open>uid\<close>); a prediction is a dictionary of \<^verbatim>\<open>db.get_user_predictions\<close> (key \<^verbatim>\<open>id\<close> is
  field \<open>pid\<close>). The password credential of a user is a salt and a digest.
\<close>

record user_row =
  uid :: nat
  username :: string
  email :: string
  password_credential :: "string \<times> string"
  full_name :: string
  user_created_at :: nat

record prediction_record =
  pid :: nat
  user_id :: nat
  image_path :: string
  prediction_class :: string
  confidence :: real
  created_at :: nat

text \<open>
  \<^verbatim>\<open>db_module\<close> is not part of the sources. The pages are written against the methods of
  the \<^verbatim>\<open>Database\<close> object, which are a parameter here: each method takes the store
  \<open>'db\<close> and either raises or returns (the writers return the new store).
\<close>

record 'db database =
  authenticate_user :: "'db \<Rightarrow> string \<Rightarrow> string \<Rightarrow> error + user_row option"
  create_user :: "'db \<Rightarrow> string \<Rightarrow> string \<Rightarrow> string \<Rightarrow> string \<Rightarrow> error + 'db"
  save_prediction :: "'db \<Rightarrow> nat \<Rightarrow> string \<Rightarrow> string \<Rightarrow> real \<Rightarrow> error + 'db"
  get_user_predictions :: "'db \<Rightarrow> nat \<Rightarrow> error + prediction_record list"
  get_user_by_id :: "'db \<Rightarrow> nat \<Rightarrow> error + user_row option"
  update_user_profile :: "'db \<Rightarrow> nat \<Rightarrow> string \<Rightarrow> string \<Rightarrow> error + 'db"

text \<open>
  The helpers imported from \<^verbatim>\<open>utils\<close>, the loaded model, the remedy table and the two
  \<^verbatim>\<open>os.path.exists\<close> tests are parameters as well. An uploaded file is its bytes, a figure
  is an opaque string. Opening, saving and preprocessing the image and running the model
  may raise; the plotting, date and colour helpers are taken to return.
\<close>

type_synonym img_array = "real list list list list"

record env =
  remedies_data :: "string \<rightharpoonup> string"
  login_image_exists :: bool
  logo_exists :: bool
  image_open :: "string \<Rightarrow> error + unit"
  save_uploaded_file :: "string \<Rightarrow> error + string"
  preprocess_image :: "string \<Rightarrow> error + img_array"
  model_predict :: "img_array \<Rightarrow> error + real list list"
  plot_prediction_confidence :: "real list list \<Rightarrow> string list \<Rightarrow> string"
  plot_prediction_history :: "prediction_record list \<Rightarrow> string option"
  format_date :: "nat \<Rightarrow> string"
  get_class_color :: "string \<Rightarrow> string"

subsection \<open>Session state, widget values and rendered output\<close>

text \<open>
  \<^verbatim>\<open>st.session_state\<close> holds \<open>user\<close> and \<open>page\<close>; \<open>db\<close> is the store behind the
  global \<^verbatim>\<open>db\<close> object. Lines 34 to 37 give the initial session.
\<close>

record 'db app_state =
  user :: "user_row option"
  page :: string
  db :: 'db

definition initial_state :: "'db \<Rightarrow> 'db app_state" where
  "initial_state store = \<lparr>user = None, page = ''login'', db = store\<rparr>"

text \<open>The values the widgets return during one run of the script.\<close>

record inputs =
  btn_home :: bool
  btn_history :: bool
  btn_profile :: bool
  btn_logout :: bool
  login_username :: string
  login_password :: string
  login_submit :: bool
  signup_username :: string
  signup_email :: string
  signup_password :: string
  signup_confirm_password :: string
  signup_full_name :: string
  signup_submit :: bool
  uploaded_file :: "string option"
  btn_predict :: bool
  profile_email :: "string option"
  profile_full_name :: "string option"
  profile_submit :: bool

text \<open>
  What a run displays, one constructor per display call. \<open>St_markdown_percent\<close> is an
  f-string ending in a \<^verbatim>\<open>:.2%\<close> field, \<open>St_error_exc\<close> one ending in \<^verbatim>\<open>str(e)\<close>, and
  \<open>St_severity\<close> the colour-coded banner with its colour and class.
\<close>

datatype ui =
    St_title string
  | St_header string
  | St_subheader string
  | St_markdown string
  | St_markdown_percent string real
  | St_info string
  | St_success string
  | St_error string
  | St_error_exc string error
  | St_image string
  | St_plotly_chart string
  | St_severity string string
  | St_expander string "ui list"

text \<open>
  How a piece of the script ends: it falls through, it calls
  \<^verbatim>\<open>st.experimental_rerun()\<close>, or an exception leaves it.
\<close>

datatype ctl = Continue | Rerun | Raised error

type_synonym 'db result = "ctl \<times> 'db app_state \<times> ui list"

definition and_then :: "'db result \<Rightarrow> ('db app_state \<Rightarrow> 'db result) \<Rightarrow> 'db result" where
  "and_then r f =
     (case r of
        (Continue, s, shown) \<Rightarrow> (case f s of (c, s', later) \<Rightarrow> (c, s', shown @ later))
      | (Rerun, s, shown) \<Rightarrow> (Rerun, s, shown)
      | (Raised e, s, shown) \<Rightarrow> (Raised e, s, shown))"

subsection \<open>The authentication page\<close>

definition login_form :: "'db database \<Rightarrow> 'db app_state \<Rightarrow> inputs \<Rightarrow> 'db result" where
  "login_form D s inp =
     (if login_submit inp then
        (case authenticate_user D (db s) (login_username inp) (login_password inp) of
           Inl e \<Rightarrow> (Raised e, s, [])
         | Inr None \<Rightarrow> (Continue, s, [St_error ''Invalid username or password''])
         | Inr (Some u) \<Rightarrow>
             (Rerun, s\<lparr>user := Some u, page := ''home''\<rparr>, [St_success ''Login successful!'']))
      else (Continue, s, []))"

text \<open>
  \<^verbatim>\<open>st.experimental_rerun()\<close> leaves the \<^verbatim>\<open>try\<close> block through an exception that is
  not an \<^verbatim>\<open>Exception\<close>, so the handler of line 73 sees the failures of
  \<^verbatim>\<open>db.create_user\<close> only.
\<close>

definition signup_form :: "'db database \<Rightarrow> 'db app_state \<Rightarrow> inputs \<Rightarrow> 'db result" where
  "signup_form D s inp =
     (if signup_submit inp then
        (if signup_password inp \<noteq> signup_confirm_password inp then
           (Continue, s, [St_error ''Passwords do not match!''])
         else
           (case create_user D (db s) (signup_username inp) (signup_email inp)
                   (signup_password inp) (signup_full_name inp) of
              Inr db' \<Rightarrow>
                (Rerun, s\<lparr>page := ''login'', db := db'\<rparr>,
                 [St_success ''Account created successfully! Please login.''])
            | Inl e \<Rightarrow> (Continue, s, [St_error_exc ''Error creating account: '' e])))
      else (Continue, s, []))"

text \<open>Both layouts of \<^verbatim>\<open>auth_page\<close> run the login form and then the sign-up form.\<close>

definition auth_page :: "'db database \<Rightarrow> env \<Rightarrow> 'db app_state \<Rightarrow> inputs \<Rightarrow> 'db result" where
  "auth_page D env s inp =
     and_then
       (and_then
          (Continue, s,
           [St_title ''Diabetic Retinopathy Detection'',
            St_subheader ''Welcome to the DR Detection System'']
           @ (if login_image_exists env then [St_image ''assets/login_image.png''] else []))
          (\<lambda>s1. login_form D s1 inp))
       (\<lambda>s2. signup_form D s2 inp)"

subsection \<open>The home page and the prediction\<close>

text \<open>The display of the results, lines 131 to 151.\<close>

definition display_results :: "env \<Rightarrow> real list list \<Rightarrow> string \<Rightarrow> real \<Rightarrow> ui list" where
  "display_results env prediction predicted_class conf =
     [St_subheader ''Prediction Results'',
      St_markdown (''**Predicted Class:** '' @ predicted_class),
      St_markdown_percent ''**Confidence:** '' conf,
      St_markdown (''**Remedy:** '' @ remedy_lookup (remedies_data env) predicted_class),
      St_plotly_chart (plot_prediction_confidence env prediction class_names),
      St_severity (get_class_color env predicted_class) predicted_class]"

text \<open>The body of the Predict button, lines 112 to 151.\<close>

definition predict :: "'db database \<Rightarrow> env \<Rightarrow> 'db app_state \<Rightarrow> string \<Rightarrow> 'db result" where
  "predict D env s file =
     (case save_uploaded_file env file of
        Inl e \<Rightarrow> (Raised e, s, [])
      | Inr path \<Rightarrow>
     (case preprocess_image env path of
        Inl e \<Rightarrow> (Raised e, s, [])
      | Inr img \<Rightarrow>
     (case model_predict env img of
        Inl e \<Rightarrow> (Raised e, s, [])
      | Inr prediction \<Rightarrow>
     (case classify prediction of
        Inl e \<Rightarrow> (Raised e, s, [])
      | Inr (predicted_class_index, predicted_class, conf) \<Rightarrow>
     (case user s of
        None \<Rightarrow> (Raised TypeError, s, [])
      | Some u \<Rightarrow>
     (case save_prediction D (db s) (uid u) path predicted_class conf of
        Inl e \<Rightarrow> (Raised e, s, [])
      | Inr db' \<Rightarrow>
          (Continue, s\<lparr>db := db'\<rparr>,
           display_results env prediction predicted_class conf)))))))"

definition home_page :: "'db database \<Rightarrow> env \<Rightarrow> 'db app_state \<Rightarrow> inputs \<Rightarrow> 'db result" where
  "home_page D env s inp =
     and_then
       (Continue, s,
        [St_title ''Diabetic Retinopathy Detection'', St_header ''Upload Retinal Image''])
       (\<lambda>s1.
          case uploaded_file inp of
            None \<Rightarrow> (Continue, s1, [])
          | Some file \<Rightarrow>
              (case image_open env file of
                 Inl e \<Rightarrow> (Raised e, s1, [])
               | Inr _ \<Rightarrow>
                   and_then (Continue, s1, [St_image file])
                     (\<lambda>s2. if btn_predict inp then predict D env s2 file
                           else (Continue, s2, []))))"

subsection \<open>The history and profile pages\<close>

definition expander :: "env \<Rightarrow> prediction_record \<Rightarrow> ui" where
  "expander env pred =
     St_expander (''Prediction on '' @ format_date env (created_at pred))
       [St_image (image_path pred),
        St_markdown (''**Class:** '' @ prediction_class pred),
        St_markdown_percent ''**Confidence:** '' (confidence pred),
        St_markdown (''**Date:** '' @ format_date env (created_at pred))]"

definition history_page :: "'db database \<Rightarrow> env \<Rightarrow> 'db app_state \<Rightarrow> 'db result" where
  "history_page D env s =
     and_then (Continue, s, [St_title ''Prediction History''])
       (\<lambda>s1.
          case user s1 of
            None \<Rightarrow> (Raised TypeError, s1, [])
          | Some u \<Rightarrow>
              (case get_user_predictions D (db s1) (uid u) of
                 Inl e \<Rightarrow> (Raised e, s1, [])
               | Inr predictions \<Rightarrow>
                   if predictions = [] then
                     (Continue, s1, [St_info ''No prediction history available.''])
                   else
                     (Continue, s1,
                      map (expander env) predictions
                      @ [St_subheader ''Prediction Trend'']
                      @ (case plot_prediction_history env predictions of
                           None \<Rightarrow> []
                         | Some fig \<Rightarrow> [St_plotly_chart fig]))))"

text \<open>
  A text input of the profile form returns what the user typed, or its default (the stored
  value) when the input is \<open>None\<close>.
\<close>

definition profile_page :: "'db database \<Rightarrow> 'db app_state \<Rightarrow> inputs \<Rightarrow> 'db result" where
  "profile_page D s inp =
     and_then (Continue, s, [St_title ''User Profile''])
       (\<lambda>s1.
          case user s1 of
            None \<Rightarrow> (Raised TypeError, s1, [])
          | Some su \<Rightarrow>
              (case get_user_by_id D (db s1) (uid su) of
                 Inl e \<Rightarrow> (Raised e, s1, [])
               | Inr None \<Rightarrow> (Raised TypeError, s1, [])
               | Inr (Some u) \<Rightarrow>
                   and_then (Continue, s1, [St_markdown (''**Username:** '' @ username u)])
                     (\<lambda>s2.
                        if profile_submit inp then
                          (case update_user_profile D (db s2) (uid u)
                                  (case profile_full_name inp of
                                     None \<Rightarrow> full_name u | Some n \<Rightarrow> n)
                                  (case profile_email inp of
                                     None \<Rightarrow> email u | Some m \<Rightarrow> m) of
                             Inr db' \<Rightarrow>
                               (Continue, s2\<lparr>db := db'\<rparr>,
                                [St_success ''Profile updated successfully!''])
                           | Inl e \<Rightarrow>
                               (Continue, s2, [St_error_exc ''Error updating profile: '' e]))
                        else (Continue, s2, []))))"

subsection \<open>The router\<close>

definition sidebar :: "env \<Rightarrow> 'db app_state \<Rightarrow> inputs \<Rightarrow> 'db result" where
  "sidebar env s inp =
     and_then
       (Continue, s,
        (if logo_exists env then [St_image ''assets/logo.png''] else [])
        @ [St_title ''Navigation''])
       (\<lambda>s1.
          if btn_home inp then (Rerun, s1\<lparr>page := ''home''\<rparr>, [])
          else if btn_history inp then (Rerun, s1\<lparr>page := ''history''\<rparr>, [])
          else if btn_profile inp then (Rerun, s1\<lparr>page := ''profile''\<rparr>, [])
          else if btn_logout inp then (Rerun, s1\<lparr>user := None, page := ''login''\<rparr>, [])
          else (Continue, s1, []))"

text \<open>
  The page function that the routing of lines 234 to 242 calls, if any, is returned beside
  the result of the run. The sidebar is guarded by the truth of the session user and the
  routing by its being \<^verbatim>\<open>None\<close>; a stored user is a non-empty dictionary, so both tests are
  \<open>user s \<noteq> None\<close>. \<^verbatim>\<open>st.set_page_config\<close> displays nothing and is left out.
\<close>

datatype view = Auth_page | Home_page | History_page | Profile_page

definition routing ::
  "'db database \<Rightarrow> env \<Rightarrow> 'db app_state \<Rightarrow> inputs \<Rightarrow> view option \<times> 'db result" where
  "routing D env s inp =
     (if user s = None then (Some Auth_page, auth_page D env s inp)
      else if page s = ''home'' then (Some Home_page, home_page D env s inp)
      else if page s = ''history'' then (Some History_page, history_page D env s)
      else if page s = ''profile'' then (Some Profile_page, profile_page D s inp)
      else (None, (Continue, s, [])))"

definition main ::
  "'db database \<Rightarrow> env \<Rightarrow> 'db app_state \<Rightarrow> inputs \<Rightarrow> view option \<times> 'db result" where
  "main D env s inp =
     (case (if user s \<noteq> None then sidebar env s inp else (Continue, s, [])) of
        (Continue, s1, shown) \<Rightarrow>
          (case routing D env s1 inp of (v, c, s2, later) \<Rightarrow> (v, c, s2, shown @ later))
      | (Rerun, s1, shown) \<Rightarrow> (None, Rerun, s1, shown)
      | (Raised e, s1, shown) \<Rightarrow> (None, Raised e, s1, shown))"

text \<open>
  \<^verbatim>\<open>st.experimental_rerun()\<close> stops the run and starts the script again with the session
  state as it is; in the new run no button reports a click. \<open>released\<close> is the widget
  state of such a run, and \<open>script_run\<close> runs \<^verbatim>\<open>main\<close> until a run ends without asking
  for another.
\<close>

definition released :: "inputs \<Rightarrow> inputs" where
  "released inp =
     inp\<lparr>btn_home := False, btn_history := False, btn_profile := False, btn_logout := False,
         login_submit := False, signup_submit := False, btn_predict := False,
         profile_submit := False\<rparr>"

definition pressed :: "inputs \<Rightarrow> bool" where
  "pressed inp \<longleftrightarrow>
     btn_home inp \<or> btn_history inp \<or> btn_profile inp \<or> btn_logout inp
     \<or> login_submit inp \<or> signup_submit inp"

function script_run ::
  "'db database \<Rightarrow> env \<Rightarrow> 'db app_state \<Rightarrow> inputs \<Rightarrow> view option \<times> 'db result" where
  "script_run D env s inp =
     (case main D env s inp of
        (v, Rerun, s', shown) \<Rightarrow> script_run D env s' (released inp)
      | (v, Continue, s', shown) \<Rightarrow> (v, Continue, s', shown)
      | (v, Raised e, s', shown) \<Rightarrow> (v, Raised e, s', shown))"
  by pat_completeness auto
termination
proof (relation "measure (\<lambda>(D, env, s, inp). if pressed inp then 1 else 0)")
  show "wf (measure (\<lambda>(D, env, s, inp). if pressed inp then 1 else (0::nat)))"
    by simp
next
  fix D :: "'db database" and env s inp v r c r' s' shown
  assume run: "(v, r) = main D env s inp" "(c, r') = r" "c = Rerun" "(s', shown) = r'"
  have quiet: "\<not> pressed (released inp)"
    by (simp add: pressed_def released_def)
  have "main D env s inp = (v, Rerun, s', shown)"
    using run by simp
  then have "pressed inp"
    by (auto simp: main_def routing_def sidebar_def auth_page_def home_page_def
          history_page_def profile_page_def predict_def login_form_def signup_form_def
          and_then_def pressed_def
        split: if_splits prod.splits ctl.splits sum.splits option.splits)
  then show "((D, env, s', released inp), (D, env, s, inp))
      \<in> measure (\<lambda>(D, env, s, inp). if pressed inp then 1 else 0)"
    using quiet by simp
qed

declare script_run.simps [simp del]

subsection \<open>The Database of the spec\<close>

text \<open>
  Modelled from the spec: the storage behind \<^verbatim>\<open>db_module.Database\<close> is missing; section 6,
  a store with a table of users and a table of prediction records. Rows are kept in
  insertion order and stamped with a logical clock that advances at every insert, so
  insertion order is creation-time order. \<open>storage_ok\<close> tells whether the storage accepts
  a write. Sections 3, 4.6 and 9 ask for a salted password hash and leave the algorithm
  open, so the scheme is part of the store: \<open>salt_for\<close> draws the salt of a new user and
  \<open>digest salt password\<close> is the salted hash.
\<close>

record store =
  users :: "user_row list"
  predictions :: "prediction_record list"
  clock :: nat
  storage_ok :: bool
  salt_for :: "nat \<Rightarrow> string"
  digest :: "string \<Rightarrow> string \<Rightarrow> string"

text \<open>
  Modelled from the spec: \<^verbatim>\<open>db_module.Database.authenticate_user\<close> is missing; section 4.6,
  \<^verbatim>\<open>authenticate(username, password) -> User | fails with InvalidCredentials\<close>, comparing
  by the salted hash: the given password is hashed with the salt stored for the user and
  the digest is compared with the stored digest. That the comparison takes constant time
  is a matter of timing and is not modelled.
\<close>

definition authenticate :: "store \<Rightarrow> string \<Rightarrow> string \<Rightarrow> error + user_row" where
  "authenticate st name password =
     (case find
             (\<lambda>u. username u = name
                \<and> snd (password_credential u) = digest st (fst (password_credential u)) password)
             (users st) of
        Some u \<Rightarrow> Inr u
      | None \<Rightarrow> Inl InvalidCredentials)"

text \<open>
  Modelled from the spec: \<^verbatim>\<open>db_module.Database.create_user\<close> is missing; section 4.6,
  \<^verbatim>\<open>createUser(username, email, password, full_name) -> User | fails with
  DuplicateUsername | ValidationError\<close>, with the unique username and the hashed credential
  of section 3: the row keeps a fresh salt and the digest of the password, never the
  password. The spec names no condition under which createUser itself raises ValidationError (its example,
  the password mismatch, is checked by the sign-up form), so the model raises
  DuplicateUsername only.
\<close>

definition createUser ::
  "store \<Rightarrow> string \<Rightarrow> string \<Rightarrow> string \<Rightarrow> string \<Rightarrow> error + (store \<times> user_row)" where
  "createUser st name mail password fname =
     (if name \<in> set (map username (users st)) then Inl DuplicateUsername
      else
        (let salt = salt_for st (clock st);
             u = \<lparr>uid = Suc (length (users st)), username = name, email = mail,
                  password_credential = (salt, digest st salt password), full_name = fname,
                  user_created_at = clock st\<rparr>
         in Inr (st\<lparr>users := users st @ [u], clock := Suc (clock st)\<rparr>, u)))"

text \<open>
  Modelled from the spec: \<^verbatim>\<open>db_module.Database.save_prediction\<close> is missing; section 4.5,
  \<^verbatim>\<open>record(user_id, image_path, class_label, confidence) -> record_id\<close> inserts a new
  immutable record with a server-assigned timestamp and fails with PersistenceError on
  storage failure.
\<close>

definition recordPrediction ::
  "store \<Rightarrow> nat \<Rightarrow> string \<Rightarrow> string \<Rightarrow> real \<Rightarrow> error + (store \<times> nat)" where
  "recordPrediction st u path class_label conf =
     (if storage_ok st then
        (let r = \<lparr>pid = Suc (length (predictions st)), user_id = u, image_path = path,
                  prediction_class = class_label, confidence = conf,
                  created_at = clock st\<rparr>
         in Inr (st\<lparr>predictions := predictions st @ [r], clock := Suc (clock st)\<rparr>, pid r))
      else Inl PersistenceError)"

text \<open>
  Modelled from the spec: \<^verbatim>\<open>db_module.Database.get_user_predictions\<close> is missing; section
  4.5, \<^verbatim>\<open>listByUser(user_id)\<close> returns the user's records ordered by creation time (here
  ascending) and an empty sequence when the user has no records.
\<close>

definition listByUser :: "store \<Rightarrow> nat \<Rightarrow> prediction_record list" where
  "listByUser st u = filter (\<lambda>r. user_id r = u) (predictions st)"

text \<open>
  Modelled from the spec: \<^verbatim>\<open>db_module.Database.get_user_by_id\<close> and
  \<^verbatim>\<open>update_user_profile\<close> are missing; section 3, a user is looked up by its id and
  mutated by profile updates (email, full_name).
\<close>

definition getUserById :: "store \<Rightarrow> nat \<Rightarrow> user_row option" where
  "getUserById st i = find (\<lambda>u. uid u = i) (users st)"

definition updateProfile :: "store \<Rightarrow> nat \<Rightarrow> string \<Rightarrow> string \<Rightarrow> store" where
  "updateProfile st i fname mail =
     st\<lparr>users := map (\<lambda>u. if uid u = i then u\<lparr>email := mail, full_name := fname\<rparr> else u)
                    (users st)\<rparr>"

text \<open>
  Modelled from the spec: the \<^verbatim>\<open>Database\<close> object of \<^verbatim>\<open>db_module\<close>, as the pages call
  it. \<^verbatim>\<open>login_form\<close> tests the result of \<^verbatim>\<open>authenticate_user\<close> for truth, so the failure
  InvalidCredentials of the spec reaches the page as \<open>None\<close>.
\<close>

definition spec_database :: "store database" where
  "spec_database =
     \<lparr>authenticate_user =
        (\<lambda>st name password.
           case authenticate st name password of
             Inr u \<Rightarrow> Inr (Some u)
           | Inl e \<Rightarrow> Inr None),
      create_user =
        (\<lambda>st name mail password fname.
           case createUser st name mail password fname of
             Inr (st', u) \<Rightarrow> Inr st'
           | Inl e \<Rightarrow> Inl e),
      save_prediction =
        (\<lambda>st u path class_label conf.
           case recordPrediction st u path class_label conf of
             Inr (st', rid) \<Rightarrow> Inr st'
           | Inl e \<Rightarrow> Inl e),
      get_user_predictions = (\<lambda>st u. Inr (listByUser st u)),
      get_user_by_id = (\<lambda>st i. Inr (getUserById st i)),
      update_user_profile = (\<lambda>st i fname mail. Inr (updateProfile st i fname mail))\<rparr>"

subsection \<open>A concrete installation\<close>

text \<open>
  Concrete collaborators, store and widget values on which the theorems are run. The
  digest of the example store is an injective stand-in for a salted hash.
\<close>

definition example_salt_for :: "nat \<Rightarrow> string" where
  "example_salt_for n = replicate (Suc n) (CHR ''s'')"

definition example_digest :: "string \<Rightarrow> string \<Rightarrow> string" where
  "example_digest salt password = rev (salt @ password)"

definition example_env :: "real list list \<Rightarrow> env" where
  "example_env scores =
     \<lparr>remedies_data = [''Mild'' \<mapsto> ''Control blood sugar and have yearly eye exams''],
      login_image_exists = False,
      logo_exists = True,
      image_open = (\<lambda>file. Inr ()),
      save_uploaded_file = (\<lambda>file. Inr ''uploads/eye.png''),
      preprocess_image = (\<lambda>path. Inr []),
      model_predict = (\<lambda>img. Inr scores),
      plot_prediction_confidence = (\<lambda>prediction names. ''confidence figure''),
      plot_prediction_history = (\<lambda>preds. Some ''history figure''),
      format_date = (\<lambda>t. ''2024-01-01''),
      get_class_color = (\<lambda>c. ''orange'')\<rparr>"

definition alice :: user_row where
  "alice = \<lparr>uid = 1, username = ''alice'', email = ''alice@example.org'',
            password_credential = (''s'', example_digest ''s'' ''s3cret''),
            full_name = ''Alice'', user_created_at = 0\<rparr>"

definition example_store :: store where
  "example_store =
     \<lparr>users = [alice], predictions = [], clock = 1, storage_ok = True,
      salt_for = example_salt_for, digest = example_digest\<rparr>"

definition idle :: inputs where
  "idle =
     \<lparr>btn_home = False, btn_history = False, btn_profile = False, btn_logout = False,
      login_username = [], login_password = [], login_submit = False,
      signup_username = [], signup_email = [], signup_password = [],
      signup_confirm_password = [], signup_full_name = [], signup_submit = False,
      uploaded_file = None, btn_predict = False,
      profile_email = None, profile_full_name = None, profile_submit = False\<rparr>"

definition example_session :: "store app_state" where
  "example_session = \<lparr>user = Some alice, page = ''home'', db = example_store\<rparr>"

definition example_scores :: "real list list" where
  "example_scores = [[0.1, 0.7, 0.15, 0.05]]"

definition example_saved :: "store app_state" where
  "example_saved =
     example_session\<lparr>db := example_store\<lparr>predictions :=
        [\<lparr>pid = 1, user_id = 1, image_path = ''uploads/eye.png'',
          prediction_class = ''Moderate'', confidence = 0.7, created_at = 1\<rparr>],
        clock := 2\<rparr>\<rparr>"

definition five_scores :: "real list list" where
  "five_scores = [[0.1, 0.1, 0.1, 0.1, 0.6]]"

section \<open>Properties\<close>

subsection \<open>The prediction\<close>

lemma argmax_loop_first_max:
  assumes "i = length pre" "best < i" "pre ! best = bv"
    and "\<forall>j<i. pre ! j \<le> bv" "\<forall>j<best. pre ! j < bv"
  shows "argmax_loop xs i best bv < length (pre @ xs)
     \<and> (\<forall>j<length (pre @ xs). (pre @ xs) ! j \<le> (pre @ xs) ! argmax_loop xs i best bv)
     \<and> (\<forall>j<argmax_loop xs i best bv. (pre @ xs) ! j < (pre @ xs) ! argmax_loop xs i best bv)"
  using assms
proof (induction xs arbitrary: pre i best bv)
  case Nil
  then show ?case by simp
next
  case (Cons x xs)
  show ?case
  proof (cases "bv < x")
    case True
    have "argmax_loop xs (Suc i) i x < length ((pre @ [x]) @ xs)
     \<and> (\<forall>j<length ((pre @ [x]) @ xs).
          ((pre @ [x]) @ xs) ! j \<le> ((pre @ [x]) @ xs) ! argmax_loop xs (Suc i) i x)
     \<and> (\<forall>j<argmax_loop xs (Suc i) i x.
          ((pre @ [x]) @ xs) ! j < ((pre @ [x]) @ xs) ! argmax_loop xs (Suc i) i x)"
    proof (rule Cons.IH)
      show "Suc i = length (pre @ [x])" using Cons.prems(1) by simp
      show "i < Suc i" by simp
      show "(pre @ [x]) ! i = x" using Cons.prems(1) by simp
      show "\<forall>j<Suc i. (pre @ [x]) ! j \<le> x"
        using Cons.prems(1,4) True by (auto simp: nth_append less_Suc_eq)
      show "\<forall>j<i. (pre @ [x]) ! j < x"
        using Cons.prems(1,4) True by (auto simp: nth_append)
    qed
    then show ?thesis using True by simp
  next
    case False
    have "argmax_loop xs (Suc i) best bv < length ((pre @ [x]) @ xs)
     \<and> (\<forall>j<length ((pre @ [x]) @ xs).
          ((pre @ [x]) @ xs) ! j \<le> ((pre @ [x]) @ xs) ! argmax_loop xs (Suc i) best bv)
     \<and> (\<forall>j<argmax_loop xs (Suc i) best bv.
          ((pre @ [x]) @ xs) ! j < ((pre @ [x]) @ xs) ! argmax_loop xs (Suc i) best bv)"
    proof (rule Cons.IH)
      show "Suc i = length (pre @ [x])" using Cons.prems(1) by simp
      show "best < Suc i" using Cons.prems(2) by simp
      show "(pre @ [x]) ! best = bv" using Cons.prems(1,2,3) by (simp add: nth_append)
      show "\<forall>j<Suc i. (pre @ [x]) ! j \<le> bv"
        using Cons.prems(1,4) False by (auto simp: nth_append less_Suc_eq)
      show "\<forall>j<best. (pre @ [x]) ! j < bv"
        using Cons.prems(1,2,5) by (auto simp: nth_append)
    qed
    then show ?thesis using False by simp
  qed
qed

lemma np_argmax_first_max:
  assumes "np_argmax prediction = Inr i"
  shows "i < length (flatten prediction)
     \<and> (\<forall>j<length (flatten prediction). flatten prediction ! j \<le> flatten prediction ! i)
     \<and> (\<forall>j<i. flatten prediction ! j < flatten prediction ! i)"
proof (cases "flatten prediction")
  case Nil
  then show ?thesis using assms by (simp add: np_argmax_def)
next
  case (Cons x xs)
  then have i: "i = argmax_loop xs 1 0 x" using assms by (simp add: np_argmax_def)
  have "argmax_loop xs 1 0 x < length ([x] @ xs)
     \<and> (\<forall>j<length ([x] @ xs). ([x] @ xs) ! j \<le> ([x] @ xs) ! argmax_loop xs 1 0 x)
     \<and> (\<forall>j<argmax_loop xs 1 0 x. ([x] @ xs) ! j < ([x] @ xs) ! argmax_loop xs 1 0 x)"
    by (rule argmax_loop_first_max) simp_all
  then show ?thesis using Cons i by simp
qed

lemma np_argmax_total:
  "flatten prediction \<noteq> [] \<Longrightarrow> \<exists>i. np_argmax prediction = Inr i"
  by (cases "flatten prediction") (simp_all add: np_argmax_def)

lemma first_row_flatten:
  "prediction \<noteq> [] \<Longrightarrow> i < length (prediction ! 0) \<Longrightarrow> flatten prediction ! i = prediction ! 0 ! i"
  by (cases prediction) (simp_all add: flatten_def nth_append)

lemma classify_Inr_iff:
  "classify prediction = Inr (i, c, conf) \<longleftrightarrow>
     np_argmax prediction = Inr i \<and> i < length class_names \<and> c = class_names ! i
     \<and> prediction \<noteq> [] \<and> i < length (prediction ! 0) \<and> conf = prediction ! 0 ! i"
  by (auto simp: classify_def index_def index2_def split: sum.splits if_splits)

lemma predict_Continue_iff:
  assumes "save_uploaded_file env file = Inr path" "preprocess_image env path = Inr img"
    and "model_predict env img = Inr prediction"
  shows "predict D env s file = (Continue, s', shown) \<longleftrightarrow>
     (\<exists>i c conf u db'. classify prediction = Inr (i, c, conf)
        \<and> user s = Some u
        \<and> save_prediction D (db s) (uid u) path c conf = Inr db'
        \<and> s' = s\<lparr>db := db'\<rparr>
        \<and> shown = display_results env prediction c conf)"
proof (cases "classify prediction")
  case (Inl e)
  then show ?thesis using assms by (simp add: predict_def)
next
  case (Inr r)
  obtain i c conf where r: "r = (i, c, conf)" by (cases r) auto
  show ?thesis
  proof (cases "user s")
    case None
    then show ?thesis using assms Inr r by (simp add: predict_def)
  next
    case (Some u)
    show ?thesis
    proof (cases "save_prediction D (db s) (uid u) path c conf")
      case (Inl e)
      then show ?thesis using assms Inr r Some by (simp add: predict_def)
    next
      case (Inr db')
      then show ?thesis using assms \<open>classify prediction = Inr r\<close> r Some
        by (auto simp: predict_def)
    qed
  qed
qed

lemma predict_class_error:
  assumes "save_uploaded_file env file = Inr path" "preprocess_image env path = Inr img"
    and "model_predict env img = Inr prediction" "classify prediction = Inl e"
  shows "predict D env s file = (Raised e, s, [])"
  using assms by (simp add: predict_def)

lemma length_class_names: "length class_names = 4"
  by (simp add: class_names_def)

lemma classify_out_of_range:
  assumes "np_argmax prediction = Inr i" "4 \<le> i"
  shows "index class_names i = Inl IndexError \<and> classify prediction = Inl IndexError"
  using assms by (simp add: classify_def index_def length_class_names)

lemma np_argmax_last:
  assumes "0 < n"
  shows "np_argmax [replicate (n - 1) 0 @ [1]] = Inr (n - 1)"
proof -
  let ?v = "replicate (n - 1) (0::real) @ [1]"
  have fl: "flatten [?v] = ?v" by (simp add: flatten_def)
  obtain i where i: "np_argmax [?v] = Inr i"
    using np_argmax_total [of "[?v]"] fl by auto
  have len: "length ?v = n" using assms by simp
  from np_argmax_first_max [OF i] fl len
  have b: "i < n" and m: "\<forall>j<n. ?v ! j \<le> ?v ! i" by simp_all
  have "?v ! (n - 1) \<le> ?v ! i" using m assms by simp
  then have "1 \<le> ?v ! i" by (simp add: nth_append)
  then have "i = n - 1" using b by (auto simp: nth_append split: if_splits)
  then show ?thesis using i by simp
qed

lemma example_classify: "classify example_scores = Inr (1, ''Moderate'', 0.7)"
  by (simp add: classify_def np_argmax_def flatten_def index_def index2_def class_names_def
        example_scores_def)

lemma example_predict:
  "predict spec_database (example_env example_scores) example_session ''retina'' =
     (Continue, example_saved,
      display_results (example_env example_scores) example_scores ''Moderate'' 0.7)"
  by (simp add: predict_def example_classify example_env_def example_session_def
        example_saved_def spec_database_def recordPrediction_def example_store_def alice_def)

text \<open>
  C1. Given the classifier output \<open>prediction\<close> of the run, a prediction that completes
  has found the arg-max index \<open>i\<close> of the output (in range, no score greater, no earlier
  score equal), the class passed to \<^verbatim>\<open>db.save_prediction\<close> and displayed is
  \<open>class_names ! i\<close>, and the confidence passed to \<^verbatim>\<open>db.save_prediction\<close> and displayed
  is the score at that same index \<open>i\<close>. Conversely the prediction completes with exactly
  these values whenever the index is inside the class list and the first row, a user is
  logged in and the save succeeds.
\<close>

theorem predicted_class_is_argmax:
  assumes "save_uploaded_file env file = Inr path" "preprocess_image env path = Inr img"
    and "model_predict env img = Inr prediction"
  shows "(predict D env s file = (Continue, s', shown) \<longrightarrow>
      (\<exists>i u. np_argmax prediction = Inr i
         \<and> i < length (flatten prediction)
         \<and> (\<forall>j<length (flatten prediction). flatten prediction ! j \<le> flatten prediction ! i)
         \<and> (\<forall>j<i. flatten prediction ! j < flatten prediction ! i)
         \<and> i < length class_names
         \<and> prediction ! 0 ! i = flatten prediction ! i
         \<and> user s = Some u
         \<and> save_prediction D (db s) (uid u) path (class_names ! i) (flatten prediction ! i)
             = Inr (db s')
         \<and> shown = display_results env prediction (class_names ! i) (flatten prediction ! i)
         \<and> St_markdown (''**Predicted Class:** '' @ class_names ! i) \<in> set shown
         \<and> St_markdown_percent ''**Confidence:** '' (flatten prediction ! i) \<in> set shown))
     \<and> (\<forall>i u db'. np_argmax prediction = Inr i \<and> i < length class_names
            \<and> prediction \<noteq> [] \<and> i < length (prediction ! 0) \<and> user s = Some u
            \<and> save_prediction D (db s) (uid u) path (class_names ! i) (flatten prediction ! i)
                = Inr db' \<longrightarrow>
          predict D env s file =
            (Continue, s\<lparr>db := db'\<rparr>,
             display_results env prediction (class_names ! i) (flatten prediction ! i)))"
proof (intro conjI impI allI)
  assume run: "predict D env s file = (Continue, s', shown)"
  then obtain i c conf u db' where
    cl: "classify prediction = Inr (i, c, conf)" and u: "user s = Some u"
    and sv: "save_prediction D (db s) (uid u) path c conf = Inr db'"
    and s': "s' = s\<lparr>db := db'\<rparr>" and sh: "shown = display_results env prediction c conf"
    using predict_Continue_iff [OF assms, of D s s' shown] by blast
  from cl have am: "np_argmax prediction = Inr i" and ic: "i < length class_names"
    and c: "c = class_names ! i" and ne: "prediction \<noteq> []"
    and ir: "i < length (prediction ! 0)" and conf: "conf = prediction ! 0 ! i"
    by (simp_all add: classify_Inr_iff)
  have fr: "flatten prediction ! i = prediction ! 0 ! i"
    using ne ir by (rule first_row_flatten)
  show "\<exists>i u. np_argmax prediction = Inr i
         \<and> i < length (flatten prediction)
         \<and> (\<forall>j<length (flatten prediction). flatten prediction ! j \<le> flatten prediction ! i)
         \<and> (\<forall>j<i. flatten prediction ! j < flatten prediction ! i)
         \<and> i < length class_names
         \<and> prediction ! 0 ! i = flatten prediction ! i
         \<and> user s = Some u
         \<and> save_prediction D (db s) (uid u) path (class_names ! i) (flatten prediction ! i)
             = Inr (db s')
         \<and> shown = display_results env prediction (class_names ! i) (flatten prediction ! i)
         \<and> St_markdown (''**Predicted Class:** '' @ class_names ! i) \<in> set shown
         \<and> St_markdown_percent ''**Confidence:** '' (flatten prediction ! i) \<in> set shown"
    using np_argmax_first_max [OF am] am ic fr u sv s' sh c conf
    by (intro exI [of _ i] exI [of _ u]) (simp add: display_results_def)
next
  fix i u db'
  assume h: "np_argmax prediction = Inr i \<and> i < length class_names
            \<and> prediction \<noteq> [] \<and> i < length (prediction ! 0) \<and> user s = Some u
            \<and> save_prediction D (db s) (uid u) path (class_names ! i) (flatten prediction ! i)
                = Inr db'"
  then have fr: "flatten prediction ! i = prediction ! 0 ! i"
    by (simp add: first_row_flatten)
  have "classify prediction = Inr (i, class_names ! i, prediction ! 0 ! i)"
    using h by (simp add: classify_Inr_iff)
  then show "predict D env s file =
            (Continue, s\<lparr>db := db'\<rparr>,
             display_results env prediction (class_names ! i) (flatten prediction ! i))"
    using h fr predict_Continue_iff [OF assms, of D s "s\<lparr>db := db'\<rparr>"
        "display_results env prediction (class_names ! i) (prediction ! 0 ! i)"]
    by auto
qed

theorem predicted_class_is_argmax_witness:
  "save_uploaded_file (example_env example_scores) ''retina'' = Inr ''uploads/eye.png''
   \<and> preprocess_image (example_env example_scores) ''uploads/eye.png'' = Inr []
   \<and> model_predict (example_env example_scores) [] = Inr example_scores
   \<and> predict spec_database (example_env example_scores) example_session ''retina'' =
       (Continue, example_saved,
        display_results (example_env example_scores) example_scores ''Moderate'' 0.7)
   \<and> (\<exists>i u. np_argmax example_scores = Inr i
         \<and> i < length (flatten example_scores)
         \<and> (\<forall>j<length (flatten example_scores).
               flatten example_scores ! j \<le> flatten example_scores ! i)
         \<and> (\<forall>j<i. flatten example_scores ! j < flatten example_scores ! i)
         \<and> i < length class_names
         \<and> example_scores ! 0 ! i = flatten example_scores ! i
         \<and> user example_session = Some u
         \<and> save_prediction spec_database (db example_session) (uid u) ''uploads/eye.png''
              (class_names ! i) (flatten example_scores ! i) = Inr (db example_saved)
         \<and> display_results (example_env example_scores) example_scores ''Moderate'' 0.7
             = display_results (example_env example_scores) example_scores (class_names ! i)
                 (flatten example_scores ! i))"
proof -
  have h1: "save_uploaded_file (example_env example_scores) ''retina'' = Inr ''uploads/eye.png''"
    by (simp add: example_env_def)
  have h2: "preprocess_image (example_env example_scores) ''uploads/eye.png'' = Inr []"
    by (simp add: example_env_def)
  have h3: "model_predict (example_env example_scores) [] = Inr example_scores"
    by (simp add: example_env_def)
  show ?thesis
    using predicted_class_is_argmax [OF h1 h2 h3, of spec_database example_session
        example_saved
        "display_results (example_env example_scores) example_scores ''Moderate'' 0.7"]
      h1 h2 h3 example_predict
    by blast
qed

lemma classify_in_bounds:
  assumes "flatten prediction \<noteq> []" "length (flatten prediction) \<le> length class_names"
  shows "\<exists>i. np_argmax prediction = Inr i \<and> i < length class_names
     \<and> index class_names i = Inr (class_names ! i)
     \<and> classify prediction =
         (case index2 prediction i of
            Inl e \<Rightarrow> Inl e
          | Inr conf \<Rightarrow> Inr (i, class_names ! i, conf))"
proof -
  obtain i where i: "np_argmax prediction = Inr i"
    using np_argmax_total [OF assms(1)] by blast
  then have b: "i < length class_names"
    using np_argmax_first_max [OF i] assms(2) by simp
  then have "classify prediction =
         (case index2 prediction i of
            Inl e \<Rightarrow> Inl e
          | Inr conf \<Rightarrow> Inr (i, class_names ! i, conf))"
    using i by (simp add: classify_def index_def)
  then show ?thesis using i b by (simp add: index_def)
qed

lemma classify_vector:
  assumes "v \<noteq> []" "length v \<le> length class_names"
  shows "\<exists>i. np_argmax [v] = Inr i \<and> i < length v \<and> i < length class_names
     \<and> classify [v] = Inr (i, class_names ! i, v ! i)"
proof -
  have fl: "flatten [v] = v" by (simp add: flatten_def)
  obtain i where i: "np_argmax [v] = Inr i" and b: "i < length class_names"
    and c: "classify [v] =
         (case index2 [v] i of
            Inl e \<Rightarrow> Inl e
          | Inr conf \<Rightarrow> Inr (i, class_names ! i, conf))"
    using classify_in_bounds [of "[v]"] assms fl by auto
  have iv: "i < length v" using np_argmax_first_max [OF i] fl by simp
  then have "index2 [v] i = Inr (v ! i)" by (simp add: index2_def index_def)
  then show ?thesis using i b c iv by simp
qed

lemma predict_vector:
  assumes "save_uploaded_file env upload = Inr path" "preprocess_image env path = Inr img"
    and "model_predict env img = Inr [v]" "user s = Some u"
    and "classify [v] = Inr (i, c, conf)"
  shows "predict D env s upload =
     (case save_prediction D (db s) (uid u) path c conf of
        Inl e \<Rightarrow> (Raised e, s, [])
      | Inr db' \<Rightarrow> (Continue, s\<lparr>db := db'\<rparr>, display_results env [v] c conf))"
  using assms by (simp add: predict_def)

text \<open>
  C9. The class list has four names. When the flattened classifier output is not empty and
  has at most four scores, the arg-max index is inside the class list, the lookup
  \<^verbatim>\<open>class_names[predicted_class_index]\<close> of the workflow succeeds, and the classification
  goes on to the score lookup; for an output of one row with at most four scores the
  classification returns the class and score at the arg-max index and the prediction goes
  on to the save. When the arg-max index is 4 or greater the lookup raises IndexError, and
  so does the prediction, before anything is saved or displayed. The bound cannot be
  relaxed: for every length above four there is an output (largest score last) on which
  the lookup is out of bounds.
\<close>

theorem class_lookup_bounds:
  "(flatten prediction \<noteq> [] \<and> length (flatten prediction) \<le> length class_names \<longrightarrow>
      (\<exists>i. np_argmax prediction = Inr i
         \<and> index class_names i = Inr (class_names ! i)
         \<and> classify prediction =
             (case index2 prediction i of
                Inl e \<Rightarrow> Inl e
              | Inr conf \<Rightarrow> Inr (i, class_names ! i, conf))))
   \<and> (v \<noteq> [] \<and> length v \<le> length class_names \<longrightarrow>
      (\<exists>i. np_argmax [v] = Inr i
         \<and> classify [v] = Inr (i, class_names ! i, v ! i)
         \<and> (save_uploaded_file env upload = Inr path \<and> preprocess_image env path = Inr img
              \<and> model_predict env img = Inr [v] \<and> user s = Some u \<longrightarrow>
             predict D env s upload =
               (case save_prediction D (db s) (uid u) path (class_names ! i) (v ! i) of
                  Inl e \<Rightarrow> (Raised e, s, [])
                | Inr db' \<Rightarrow>
                    (Continue, s\<lparr>db := db'\<rparr>,
                     display_results env [v] (class_names ! i) (v ! i))))))
   \<and> (\<forall>i. np_argmax prediction = Inr i \<and> 4 \<le> i \<longrightarrow>
          index class_names i = Inl IndexError
          \<and> classify prediction = Inl IndexError
          \<and> (save_uploaded_file env upload = Inr path \<and> preprocess_image env path = Inr img
               \<and> model_predict env img = Inr prediction \<longrightarrow>
              predict D env s upload = (Raised IndexError, s, [])))
   \<and> (4 < n \<longrightarrow>
        length (replicate (n - 1) (0::real) @ [1]) = n
        \<and> np_argmax [replicate (n - 1) 0 @ [1]] = Inr (n - 1)
        \<and> classify [replicate (n - 1) 0 @ [1]] = Inl IndexError)
   \<and> length class_names = 4"
proof -
  have a: "\<exists>i. np_argmax prediction = Inr i
         \<and> index class_names i = Inr (class_names ! i)
         \<and> classify prediction =
             (case index2 prediction i of
                Inl e \<Rightarrow> Inl e
              | Inr conf \<Rightarrow> Inr (i, class_names ! i, conf))"
    if "flatten prediction \<noteq> [] \<and> length (flatten prediction) \<le> length class_names"
    using classify_in_bounds [of prediction] that by blast
  have b: "\<exists>i. np_argmax [v] = Inr i
         \<and> classify [v] = Inr (i, class_names ! i, v ! i)
         \<and> (save_uploaded_file env upload = Inr path \<and> preprocess_image env path = Inr img
              \<and> model_predict env img = Inr [v] \<and> user s = Some u \<longrightarrow>
             predict D env s upload =
               (case save_prediction D (db s) (uid u) path (class_names ! i) (v ! i) of
                  Inl e \<Rightarrow> (Raised e, s, [])
                | Inr db' \<Rightarrow>
                    (Continue, s\<lparr>db := db'\<rparr>,
                     display_results env [v] (class_names ! i) (v ! i))))"
    if vb: "v \<noteq> [] \<and> length v \<le> length class_names"
  proof -
    obtain i where i: "np_argmax [v] = Inr i"
      and c: "classify [v] = Inr (i, class_names ! i, v ! i)"
      using classify_vector [of v] vb by blast
    show ?thesis
      using i c predict_vector [where v = v and i = i and c = "class_names ! i"
          and conf = "v ! i" and env = env and upload = upload and path = path
          and img = img and s = s and u = u and D = D]
      by blast
  qed
  have c: "index class_names i = Inl IndexError
          \<and> classify prediction = Inl IndexError
          \<and> (save_uploaded_file env upload = Inr path \<and> preprocess_image env path = Inr img
               \<and> model_predict env img = Inr prediction \<longrightarrow>
              predict D env s upload = (Raised IndexError, s, []))"
    if "np_argmax prediction = Inr i \<and> 4 \<le> i" for i
    using that classify_out_of_range [of prediction i]
      predict_class_error [where e = IndexError and prediction = prediction]
    by blast
  have d: "length (replicate (n - 1) (0::real) @ [1]) = n
        \<and> np_argmax [replicate (n - 1) 0 @ [1]] = Inr (n - 1)
        \<and> classify [replicate (n - 1) 0 @ [1]] = Inl IndexError"
    if "4 < n"
  proof -
    have am: "np_argmax [replicate (n - 1) 0 @ [1]] = Inr (n - 1)"
      using np_argmax_last [of n] that by simp
    then show ?thesis
      using classify_out_of_range [OF am] that by simp
  qed
  show ?thesis using a b c d length_class_names by blast
qed

lemma five_argmax: "np_argmax five_scores = Inr 4"
  by (simp add: np_argmax_def flatten_def five_scores_def)

theorem class_lookup_bounds_witness:
  "flatten example_scores \<noteq> [] \<and> length (flatten example_scores) \<le> length class_names
   \<and> [0.1, 0.7, 0.15, 0.05] \<noteq> ([]::real list)
   \<and> length [0.1, 0.7, 0.15, 0.05 :: real] \<le> length class_names
   \<and> save_uploaded_file (example_env example_scores) ''retina'' = Inr ''uploads/eye.png''
   \<and> preprocess_image (example_env example_scores) ''uploads/eye.png'' = Inr []
   \<and> model_predict (example_env example_scores) [] = Inr [[0.1, 0.7, 0.15, 0.05]]
   \<and> user example_session = Some alice
   \<and> (\<exists>i. np_argmax [[0.1, 0.7, 0.15, 0.05]] = Inr i
         \<and> classify [[0.1, 0.7, 0.15, 0.05]]
             = Inr (i, class_names ! i, [0.1, 0.7, 0.15, 0.05] ! i)
         \<and> predict spec_database (example_env example_scores) example_session ''retina'' =
               (case save_prediction spec_database (db example_session) (uid alice)
                       ''uploads/eye.png'' (class_names ! i) ([0.1, 0.7, 0.15, 0.05] ! i) of
                  Inl e \<Rightarrow> (Raised e, example_session, [])
                | Inr db' \<Rightarrow>
                    (Continue, example_session\<lparr>db := db'\<rparr>,
                     display_results (example_env example_scores) [[0.1, 0.7, 0.15, 0.05]]
                       (class_names ! i) ([0.1, 0.7, 0.15, 0.05] ! i))))
   \<and> np_argmax five_scores = Inr 4 \<and> (4::nat) \<le> 4
   \<and> save_uploaded_file (example_env five_scores) ''retina'' = Inr ''uploads/eye.png''
   \<and> preprocess_image (example_env five_scores) ''uploads/eye.png'' = Inr []
   \<and> model_predict (example_env five_scores) [] = Inr five_scores
   \<and> index class_names 4 = Inl IndexError
   \<and> classify five_scores = Inl IndexError
   \<and> predict spec_database (example_env five_scores) example_session ''retina''
       = (Raised IndexError, example_session, [])
   \<and> (4::nat) < 5
   \<and> classify [replicate (5 - 1) 0 @ [1]] = Inl IndexError"
proof -
  have a: "flatten example_scores \<noteq> [] \<and> length (flatten example_scores) \<le> length class_names"
    by (simp add: flatten_def example_scores_def class_names_def)
  have v: "[0.1, 0.7, 0.15, 0.05] \<noteq> ([]::real list)
     \<and> length [0.1, 0.7, 0.15, 0.05 :: real] \<le> length class_names"
    by (simp add: class_names_def)
  have e1: "save_uploaded_file (example_env example_scores) ''retina'' = Inr ''uploads/eye.png''
     \<and> preprocess_image (example_env example_scores) ''uploads/eye.png'' = Inr []
     \<and> model_predict (example_env example_scores) [] = Inr [[0.1, 0.7, 0.15, 0.05]]
     \<and> user example_session = Some alice"
    by (simp add: example_env_def example_scores_def example_session_def)
  have e2: "save_uploaded_file (example_env five_scores) ''retina'' = Inr ''uploads/eye.png''
     \<and> preprocess_image (example_env five_scores) ''uploads/eye.png'' = Inr []
     \<and> model_predict (example_env five_scores) [] = Inr five_scores"
    by (simp add: example_env_def)
  show ?thesis
    using class_lookup_bounds [where prediction = example_scores and n = 5
        and v = "[0.1, 0.7, 0.15, 0.05]"
        and env = "example_env example_scores" and upload = "''retina''"
        and path = "''uploads/eye.png''" and img = "[]" and D = spec_database
        and s = example_session and u = alice]
      class_lookup_bounds [where prediction = five_scores and n = 5
        and v = "[0.1, 0.7, 0.15, 0.05]"
        and env = "example_env five_scores" and upload = "''retina''"
        and path = "''uploads/eye.png''" and img = "[]" and D = spec_database
        and s = example_session and u = alice]
      a v e1 e2 five_argmax
    by auto
qed

lemma spec_save_prediction:
  "save_prediction spec_database st u path c conf = Inr st' \<longleftrightarrow>
     storage_ok st
     \<and> st' = st\<lparr>predictions := predictions st @
          [\<lparr>pid = Suc (length (predictions st)), user_id = u, image_path = path,
            prediction_class = c, confidence = conf, created_at = clock st\<rparr>],
          clock := Suc (clock st)\<rparr>"
  by (auto simp: spec_database_def recordPrediction_def Let_def)

lemma predict_saved_values:
  assumes "save_uploaded_file env upload = Inr path" "preprocess_image env path = Inr img"
    and "model_predict env img = Inr prediction"
    and "predict D env s upload = (Continue, s', shown)"
  shows "\<exists>i u. np_argmax prediction = Inr i \<and> i < length class_names
      \<and> i < length (flatten prediction) \<and> user s = Some u
      \<and> save_prediction D (db s) (uid u) path (class_names ! i) (flatten prediction ! i)
          = Inr (db s')"
proof -
  obtain i c conf u db' where
    cl: "classify prediction = Inr (i, c, conf)" and u: "user s = Some u"
    and sv: "save_prediction D (db s) (uid u) path c conf = Inr db'"
    and s': "s' = s\<lparr>db := db'\<rparr>"
    using predict_Continue_iff [OF assms(1,2,3), of D s s' shown] assms(4) by blast
  from cl have am: "np_argmax prediction = Inr i" and ic: "i < length class_names"
    and c: "c = class_names ! i" and ne: "prediction \<noteq> []"
    and ir: "i < length (prediction ! 0)" and conf: "conf = prediction ! 0 ! i"
    by (simp_all add: classify_Inr_iff)
  have "conf = flatten prediction ! i"
    using first_row_flatten [OF ne ir] conf by simp
  moreover have "i < length (flatten prediction)"
    using np_argmax_first_max [OF am] by simp
  ultimately show ?thesis using am ic u sv s' c by auto
qed

lemma predict_completes:
  assumes "save_uploaded_file env upload = Inr path" "preprocess_image env path = Inr img"
    and "model_predict env img = Inr prediction"
    and "np_argmax prediction = Inr i" "i < length class_names" "prediction \<noteq> []"
    and "i < length (prediction ! 0)" "user t = Some u" "storage_ok (db t)"
  shows "\<exists>t' shown'. predict spec_database env t upload = (Continue, t', shown')"
proof -
  have "classify prediction = Inr (i, class_names ! i, prediction ! 0 ! i)"
    using assms by (simp add: classify_Inr_iff)
  moreover have "\<exists>st'. save_prediction spec_database (db t) (uid u) path (class_names ! i)
      (prediction ! 0 ! i) = Inr st'"
    using assms(9) by (simp add: spec_save_prediction)
  ultimately show ?thesis
    using assms(1,2,3,8) by (auto simp: predict_def)
qed

text \<open>
  C4. For every classifier output whose scores are probabilities (each between 0 and 1,
  section 4.3 of the spec), every record that the workflow hands to
  \<^verbatim>\<open>db.save_prediction\<close>, and every row that the spec's recorder stores for it, has the
  class at the arg-max index, a member of the fixed list \<open>class_names\<close>, and as confidence
  the score at that same index, which lies between 0 and 1. Such records exist: the
  prediction completes whenever the index is inside the class list and the first row, a
  user is logged in and the storage accepts the write.
\<close>

theorem record_class_and_confidence:
  assumes "save_uploaded_file env upload = Inr path" "preprocess_image env path = Inr img"
    and "model_predict env img = Inr prediction"
    and "\<forall>x\<in>set (flatten prediction). 0 \<le> x \<and> x \<le> 1"
  shows "(predict D env s upload = (Continue, s', shown) \<longrightarrow>
      (\<exists>i u. np_argmax prediction = Inr i \<and> user s = Some u
         \<and> save_prediction D (db s) (uid u) path (class_names ! i) (flatten prediction ! i)
             = Inr (db s')
         \<and> class_names ! i \<in> set class_names
         \<and> 0 \<le> flatten prediction ! i \<and> flatten prediction ! i \<le> 1))
     \<and> (predict spec_database env t upload = (Continue, t', shown') \<longrightarrow>
      (\<exists>i r. np_argmax prediction = Inr i
         \<and> predictions (db t') = predictions (db t) @ [r]
         \<and> prediction_class r = class_names ! i \<and> prediction_class r \<in> set class_names
         \<and> confidence r = flatten prediction ! i
         \<and> 0 \<le> confidence r \<and> confidence r \<le> 1))
     \<and> (\<forall>i u. np_argmax prediction = Inr i \<and> i < length class_names \<and> prediction \<noteq> []
            \<and> i < length (prediction ! 0) \<and> user t = Some u \<and> storage_ok (db t) \<longrightarrow>
          (\<exists>t' shown'. predict spec_database env t upload = (Continue, t', shown')))"
proof -
  have bound: "0 \<le> flatten prediction ! i \<and> flatten prediction ! i \<le> 1"
    if "i < length (flatten prediction)" for i
    using assms(4) that by simp
  have a: "\<exists>i u. np_argmax prediction = Inr i \<and> user s = Some u
         \<and> save_prediction D (db s) (uid u) path (class_names ! i) (flatten prediction ! i)
             = Inr (db s')
         \<and> class_names ! i \<in> set class_names
         \<and> 0 \<le> flatten prediction ! i \<and> flatten prediction ! i \<le> 1"
    if run: "predict D env s upload = (Continue, s', shown)"
  proof -
    obtain i and u :: user_row where
      "np_argmax prediction = Inr i" "i < length class_names"
      "i < length (flatten prediction)" "user s = Some u"
      "save_prediction D (db s) (uid u) path (class_names ! i) (flatten prediction ! i)
          = Inr (db s')"
      using predict_saved_values [OF assms(1,2,3) run] by blast
    then show ?thesis using bound [of i] by (intro exI [of _ i] exI [of _ u]) simp
  qed
  have b: "\<exists>i r. np_argmax prediction = Inr i
         \<and> predictions (db t') = predictions (db t) @ [r]
         \<and> prediction_class r = class_names ! i \<and> prediction_class r \<in> set class_names
         \<and> confidence r = flatten prediction ! i
         \<and> 0 \<le> confidence r \<and> confidence r \<le> 1"
    if run: "predict spec_database env t upload = (Continue, t', shown')"
  proof -
    obtain i and u :: user_row where
      am: "np_argmax prediction = Inr i" and ic: "i < length class_names"
      and il: "i < length (flatten prediction)"
      and sv: "save_prediction spec_database (db t) (uid u) path (class_names ! i)
          (flatten prediction ! i) = Inr (db t')"
      using predict_saved_values [OF assms(1,2,3) run] by blast
    let ?r = "\<lparr>pid = Suc (length (predictions (db t))), user_id = uid u, image_path = path,
            prediction_class = class_names ! i, confidence = flatten prediction ! i,
            created_at = clock (db t)\<rparr>"
    have "predictions (db t') = predictions (db t) @ [?r]"
      using sv by (simp add: spec_save_prediction)
    then show ?thesis
      using am ic bound [OF il] by (intro exI [of _ i] exI [of _ ?r]) simp
  qed
  have c: "\<exists>t' shown'. predict spec_database env t upload = (Continue, t', shown')"
    if "np_argmax prediction = Inr i \<and> i < length class_names \<and> prediction \<noteq> []
            \<and> i < length (prediction ! 0) \<and> user t = Some u \<and> storage_ok (db t)" for i u
    using that predict_completes [OF assms(1,2,3), of i t u] by blast
  show ?thesis using a b c by blast
qed

theorem record_class_and_confidence_witness:
  "save_uploaded_file (example_env example_scores) ''retina'' = Inr ''uploads/eye.png''
   \<and> preprocess_image (example_env example_scores) ''uploads/eye.png'' = Inr []
   \<and> model_predict (example_env example_scores) [] = Inr example_scores
   \<and> list_all (\<lambda>x. 0 \<le> x \<and> x \<le> 1) (flatten example_scores)
   \<and> predict spec_database (example_env example_scores) example_session ''retina'' =
       (Continue, example_saved,
        display_results (example_env example_scores) example_scores ''Moderate'' 0.7)
   \<and> (\<exists>i r. np_argmax example_scores = Inr i
         \<and> predictions (db example_saved) = predictions (db example_session) @ [r]
         \<and> prediction_class r = class_names ! i \<and> prediction_class r \<in> set class_names
         \<and> confidence r = flatten example_scores ! i
         \<and> 0 \<le> confidence r \<and> confidence r \<le> 1)"
proof -
  have h1: "save_uploaded_file (example_env example_scores) ''retina'' = Inr ''uploads/eye.png''"
    by (simp add: example_env_def)
  have h2: "preprocess_image (example_env example_scores) ''uploads/eye.png'' = Inr []"
    by (simp add: example_env_def)
  have h3: "model_predict (example_env example_scores) [] = Inr example_scores"
    by (simp add: example_env_def)
  have h4: "\<forall>x\<in>set (flatten example_scores). 0 \<le> x \<and> x \<le> 1"
    by (simp add: flatten_def example_scores_def)
  show ?thesis
    using record_class_and_confidence [OF h1 h2 h3 h4, where D = spec_database
        and s = example_session and s' = example_saved and t = example_session
        and t' = example_saved
        and shown = "display_results (example_env example_scores) example_scores ''Moderate'' 0.7"
        and shown' = "display_results (example_env example_scores) example_scores ''Moderate'' 0.7"]
      h1 h2 h3 h4 example_predict
    unfolding list_all_iff by blast
qed

text \<open>
  The workflow stores the score as it is: on the output \<open>[[2, 0, 0, 0]]\<close>, which is outside
  the classifier contract, the stored confidence is 2.
\<close>

lemma score_is_stored_unchanged:
  "fst (predict spec_database (example_env [[2, 0, 0, 0]]) example_session ''retina'') = Continue
   \<and> map confidence (predictions (db (fst (snd
        (predict spec_database (example_env [[2, 0, 0, 0]]) example_session ''retina'')))))
      = [2]"
  by (simp add: predict_def classify_def np_argmax_def flatten_def index_def index2_def
        class_names_def example_env_def example_session_def spec_database_def
        recordPrediction_def example_store_def alice_def display_results_def)

subsection \<open>Remedy lookup\<close>

text \<open>
  C3. For every class label the remedy lookup returns the configured advisory text when the
  label is in the remedy table and the sentinel string "No remedy available" when it is
  absent. The lookup is a total function of the table and the label: it has no state to
  change and no error to raise.
\<close>

theorem remedy_lookup_fallback:
  "(remedies label = Some advice \<longrightarrow> remedy_lookup remedies label = advice)
   \<and> (remedies label = None \<longrightarrow> remedy_lookup remedies label = ''No remedy available'')"
  by (simp add: remedy_lookup_def)

theorem remedy_lookup_fallback_witness:
  "remedies_data (example_env []) ''Mild'' = Some ''Control blood sugar and have yearly eye exams''
   \<and> remedy_lookup (remedies_data (example_env [])) ''Mild''
       = ''Control blood sugar and have yearly eye exams''
   \<and> remedies_data (example_env []) ''Unknown'' = None
   \<and> remedy_lookup (remedies_data (example_env [])) ''Unknown'' = ''No remedy available''"
  using remedy_lookup_fallback [of "remedies_data (example_env [])" "''Mild''"
      "''Control blood sugar and have yearly eye exams''"]
    remedy_lookup_fallback [of "remedies_data (example_env [])" "''Unknown''"]
  by (simp add: example_env_def)

subsection \<open>Sign-up\<close>

lemma main_logged_out:
  "user s = None \<Longrightarrow> main D env s inp = (Some Auth_page, auth_page D env s inp)"
  by (simp add: main_def routing_def split: prod.splits)

lemma auth_page_mismatch:
  assumes "\<not> login_submit inp" "signup_submit inp"
    and "signup_password inp \<noteq> signup_confirm_password inp"
  shows "auth_page D env s inp =
     (Continue, s,
      [St_title ''Diabetic Retinopathy Detection'',
       St_subheader ''Welcome to the DR Detection System'']
      @ (if login_image_exists env then [St_image ''assets/login_image.png''] else [])
      @ [St_error ''Passwords do not match!''])"
  using assms by (simp add: auth_page_def and_then_def login_form_def signup_form_def)

text \<open>
  C5. A sign-up submission whose password and confirmation differ fails with the validation
  message "Passwords do not match!": \<^verbatim>\<open>signup_form\<close> returns without calling
  \<^verbatim>\<open>db.create_user\<close> (its result does not depend on the database methods), and the
  session and the store are what they were before. The same holds for the whole run of
  \<^verbatim>\<open>main\<close> in which the form is submitted.
\<close>

theorem signup_mismatch_rejected:
  assumes "signup_submit inp"
    and "signup_password inp \<noteq> signup_confirm_password inp"
  shows "signup_form D s inp = (Continue, s, [St_error ''Passwords do not match!''])
     \<and> (user s = None \<and> \<not> login_submit inp \<longrightarrow>
          main D env s inp =
            (Some Auth_page, Continue, s,
             [St_title ''Diabetic Retinopathy Detection'',
              St_subheader ''Welcome to the DR Detection System'']
             @ (if login_image_exists env then [St_image ''assets/login_image.png''] else [])
             @ [St_error ''Passwords do not match!'']))"
  using assms by (simp add: signup_form_def main_logged_out auth_page_mismatch)

theorem signup_mismatch_rejected_witness:
  "signup_submit (idle\<lparr>signup_username := ''bob'', signup_password := ''abc'',
       signup_confirm_password := ''abd'', signup_submit := True\<rparr>)
   \<and> signup_password (idle\<lparr>signup_username := ''bob'', signup_password := ''abc'',
       signup_confirm_password := ''abd'', signup_submit := True\<rparr>)
     \<noteq> signup_confirm_password (idle\<lparr>signup_username := ''bob'', signup_password := ''abc'',
       signup_confirm_password := ''abd'', signup_submit := True\<rparr>)
   \<and> user (initial_state example_store) = None
   \<and> \<not> login_submit (idle\<lparr>signup_username := ''bob'', signup_password := ''abc'',
       signup_confirm_password := ''abd'', signup_submit := True\<rparr>)
   \<and> signup_form spec_database (initial_state example_store)
        (idle\<lparr>signup_username := ''bob'', signup_password := ''abc'',
           signup_confirm_password := ''abd'', signup_submit := True\<rparr>)
      = (Continue, initial_state example_store, [St_error ''Passwords do not match!''])
   \<and> main spec_database (example_env []) (initial_state example_store)
        (idle\<lparr>signup_username := ''bob'', signup_password := ''abc'',
           signup_confirm_password := ''abd'', signup_submit := True\<rparr>)
      = (Some Auth_page, Continue, initial_state example_store,
         [St_title ''Diabetic Retinopathy Detection'',
          St_subheader ''Welcome to the DR Detection System'',
          St_error ''Passwords do not match!''])"
  using signup_mismatch_rejected [of "idle\<lparr>signup_username := ''bob'',
      signup_password := ''abc'', signup_confirm_password := ''abd'', signup_submit := True\<rparr>"
      spec_database "initial_state example_store" "example_env []"]
  by (simp add: idle_def initial_state_def example_env_def)

subsection \<open>The router\<close>

lemma auth_page_released:
  "auth_page D env s (released inp) =
     (Continue, s,
      [St_title ''Diabetic Retinopathy Detection'',
       St_subheader ''Welcome to the DR Detection System'']
      @ (if login_image_exists env then [St_image ''assets/login_image.png''] else []))"
  by (simp add: auth_page_def and_then_def login_form_def signup_form_def released_def)

lemma main_logout:
  assumes "user s \<noteq> None" "\<not> btn_home inp" "\<not> btn_history inp" "\<not> btn_profile inp"
    and "btn_logout inp"
  shows "main D env s inp =
     (None, Rerun, s\<lparr>user := None, page := ''login''\<rparr>,
      (if logo_exists env then [St_image ''assets/logo.png''] else [])
      @ [St_title ''Navigation''])"
  using assms by (simp add: main_def sidebar_def and_then_def)

lemma script_run_logout:
  assumes "user s \<noteq> None" "\<not> btn_home inp" "\<not> btn_history inp" "\<not> btn_profile inp"
    and "btn_logout inp"
  shows "script_run D env s inp =
     (Some Auth_page, Continue, s\<lparr>user := None, page := ''login''\<rparr>,
      [St_title ''Diabetic Retinopathy Detection'',
       St_subheader ''Welcome to the DR Detection System'']
      @ (if login_image_exists env then [St_image ''assets/login_image.png''] else []))"
proof -
  let ?s = "s\<lparr>user := None, page := ''login''\<rparr>"
  have "script_run D env s inp = script_run D env ?s (released inp)"
    using main_logout [OF assms, of D env]
    by (simp add: script_run.simps [of D env s inp])
  also have "\<dots> = (Some Auth_page, auth_page D env ?s (released inp))"
    using main_logged_out [of ?s D env "released inp"] auth_page_released [of D env ?s inp]
    by (simp add: script_run.simps [of D env ?s "released inp"])
  finally show ?thesis
    by (simp add: auth_page_released)
qed

lemma main_page_user:
  assumes "main D env s inp = (Some v, c, s', shown)" "v \<noteq> Auth_page"
  shows "user s \<noteq> None \<and> user s' = user s"
  using assms
  by (auto simp: main_def routing_def sidebar_def and_then_def home_page_def history_page_def
        profile_page_def predict_def
      split: if_splits prod.splits ctl.splits sum.splits option.splits)

lemma script_run_page_user:
  "script_run D env s inp = (Some v, c, s', shown) \<Longrightarrow> v \<noteq> Auth_page \<Longrightarrow> user s' \<noteq> None"
proof (induction D env s inp rule: script_run.induct)
  case (1 D env s inp)
  obtain v0 c0 s0 o0 where m: "main D env s inp = (v0, c0, s0, o0)"
    by (cases "main D env s inp") auto
  show ?case
  proof (cases c0)
    case Rerun
    then have "script_run D env s inp = script_run D env s0 (released inp)"
      using m by (simp add: script_run.simps [of D env s inp])
    then show ?thesis
      using 1 m Rerun by simp
  next
    case Continue
    then have "script_run D env s inp = (v0, Continue, s0, o0)"
      using m by (simp add: script_run.simps [of D env s inp])
    then show ?thesis
      using 1(2,3) m Continue main_page_user [of D env s inp v Continue s' shown] by simp
  next
    case (Raised e)
    then have "script_run D env s inp = (v0, Raised e, s0, o0)"
      using m by (simp add: script_run.simps [of D env s inp])
    then show ?thesis
      using 1(2,3) m Raised main_page_user [of D env s inp v "Raised e" s' shown] by simp
  qed
qed

lemma example_home_run:
  "main spec_database (example_env []) example_session idle =
     (Some Home_page, Continue, example_session,
      [St_image ''assets/logo.png'', St_title ''Navigation'',
       St_title ''Diabetic Retinopathy Detection'', St_header ''Upload Retinal Image''])"
  by (simp add: main_def routing_def sidebar_def and_then_def home_page_def example_session_def
        example_env_def idle_def)

lemma example_home_script_run:
  "script_run spec_database (example_env []) example_session idle =
     (Some Home_page, Continue, example_session,
      [St_image ''assets/logo.png'', St_title ''Navigation'',
       St_title ''Diabetic Retinopathy Detection'', St_header ''Upload Retinal Image''])"
  by (simp add: script_run.simps [of spec_database "example_env []" example_session idle]
        example_home_run)

text \<open>
  C8. When the session user is \<open>None\<close>, a run of \<^verbatim>\<open>main\<close> is exactly a run of the
  authentication page (no sidebar, no other page). Logout sets the user to \<open>None\<close> and the
  page to \<open>login\<close> and asks for a rerun, and that rerun renders the authentication page.
  Whenever a run of \<^verbatim>\<open>main\<close>, or a run followed by its reruns, renders the home, history
  or profile page, a user is logged in.
\<close>

theorem no_page_without_user:
  "(user s = None \<longrightarrow> main D env s inp = (Some Auth_page, auth_page D env s inp))
   \<and> (user s \<noteq> None \<and> \<not> btn_home inp \<and> \<not> btn_history inp \<and> \<not> btn_profile inp
        \<and> btn_logout inp \<longrightarrow>
        main D env s inp =
          (None, Rerun, s\<lparr>user := None, page := ''login''\<rparr>,
           (if logo_exists env then [St_image ''assets/logo.png''] else [])
           @ [St_title ''Navigation''])
        \<and> script_run D env s inp =
          (Some Auth_page, Continue, s\<lparr>user := None, page := ''login''\<rparr>,
           [St_title ''Diabetic Retinopathy Detection'',
            St_subheader ''Welcome to the DR Detection System'']
           @ (if login_image_exists env then [St_image ''assets/login_image.png''] else [])))
   \<and> (\<forall>v c s' shown. main D env s inp = (Some v, c, s', shown) \<and> v \<noteq> Auth_page \<longrightarrow>
          user s \<noteq> None)
   \<and> (\<forall>v c s' shown. script_run D env s inp = (Some v, c, s', shown) \<and> v \<noteq> Auth_page \<longrightarrow>
          user s' \<noteq> None)"
  using main_logged_out [of s D env inp] main_logout [of s inp D env]
    script_run_logout [of s inp D env] main_page_user [of D env s inp]
    script_run_page_user [of D env s inp]
  by blast

theorem no_page_without_user_witness:
  "user (initial_state example_store) = None
   \<and> main spec_database (example_env []) (initial_state example_store) idle
       = (Some Auth_page,
          auth_page spec_database (example_env []) (initial_state example_store) idle)
   \<and> user example_session \<noteq> None
   \<and> btn_logout (idle\<lparr>btn_logout := True\<rparr>)
   \<and> script_run spec_database (example_env []) example_session (idle\<lparr>btn_logout := True\<rparr>)
       = (Some Auth_page, Continue, example_session\<lparr>user := None, page := ''login''\<rparr>,
          [St_title ''Diabetic Retinopathy Detection'',
           St_subheader ''Welcome to the DR Detection System''])
   \<and> fst (main spec_database (example_env []) example_session idle) = Some Home_page
   \<and> fst (script_run spec_database (example_env []) example_session idle) = Some Home_page"
  using no_page_without_user [where s = "initial_state example_store" and D = spec_database
      and env = "example_env []" and inp = idle]
    no_page_without_user [where s = example_session and D = spec_database
      and env = "example_env []" and inp = "idle\<lparr>btn_logout := True\<rparr>"]
    no_page_without_user [where s = example_session and D = spec_database
      and env = "example_env []" and inp = idle]
    example_home_run example_home_script_run
  by (simp add: initial_state_def example_session_def idle_def example_env_def)

text \<open>
  C10. For a logged-in user whose session page is none of \<open>home\<close>, \<open>history\<close> and
  \<open>profile\<close>, the routing calls no page function: it renders nothing, raises nothing and
  leaves the session as it is, so a run of \<^verbatim>\<open>main\<close> shows the sidebar only.
\<close>

theorem routing_no_default_branch:
  assumes "user s = Some u"
    and "page s \<noteq> ''home''" "page s \<noteq> ''history''" "page s \<noteq> ''profile''"
  shows "routing D env s inp = (None, Continue, s, [])
     \<and> fst (main D env s inp) = None
     \<and> (\<forall>e. fst (snd (main D env s inp)) \<noteq> Raised e)
     \<and> (\<not> btn_home inp \<and> \<not> btn_history inp \<and> \<not> btn_profile inp \<and> \<not> btn_logout inp \<longrightarrow>
          main D env s inp =
            (None, Continue, s,
             (if logo_exists env then [St_image ''assets/logo.png''] else [])
             @ [St_title ''Navigation''])
          \<and> script_run D env s inp = main D env s inp)"
  using assms
  by (simp add: routing_def main_def sidebar_def and_then_def script_run.simps [of D env s inp])

theorem routing_no_default_branch_witness:
  "user (example_session\<lparr>page := ''login''\<rparr>) = Some alice
   \<and> page (example_session\<lparr>page := ''login''\<rparr>) \<noteq> ''home''
   \<and> page (example_session\<lparr>page := ''login''\<rparr>) \<noteq> ''history''
   \<and> page (example_session\<lparr>page := ''login''\<rparr>) \<noteq> ''profile''
   \<and> \<not> btn_home idle \<and> \<not> btn_history idle \<and> \<not> btn_profile idle \<and> \<not> btn_logout idle
   \<and> routing spec_database (example_env []) (example_session\<lparr>page := ''login''\<rparr>) idle
       = (None, Continue, example_session\<lparr>page := ''login''\<rparr>, [])
   \<and> main spec_database (example_env []) (example_session\<lparr>page := ''login''\<rparr>) idle
       = (None, Continue, example_session\<lparr>page := ''login''\<rparr>,
          [St_image ''assets/logo.png'', St_title ''Navigation''])
   \<and> script_run spec_database (example_env []) (example_session\<lparr>page := ''login''\<rparr>) idle
       = (None, Continue, example_session\<lparr>page := ''login''\<rparr>,
          [St_image ''assets/logo.png'', St_title ''Navigation''])"
  using routing_no_default_branch [where s = "example_session\<lparr>page := ''login''\<rparr>"
      and u = alice and D = spec_database and env = "example_env []" and inp = idle]
  by (simp add: example_session_def idle_def example_env_def)

subsection \<open>Recording and listing predictions\<close>

lemma recordPrediction_Inr:
  "recordPrediction st u path c conf = Inr (st', rid) \<longleftrightarrow>
     storage_ok st \<and> rid = Suc (length (predictions st))
     \<and> st' = st\<lparr>predictions := predictions st @
          [\<lparr>pid = Suc (length (predictions st)), user_id = u, image_path = path,
            prediction_class = c, confidence = conf, created_at = clock st\<rparr>],
          clock := Suc (clock st)\<rparr>"
  by (auto simp: recordPrediction_def Let_def)

text \<open>
  C2. On the recorder of the spec, a successful record of a prediction for a user followed
  by the listing of that user's predictions yields the earlier listing followed by exactly
  one new record, whose user id, image path, class label and confidence are the values
  written; the listings of the other users are unchanged. The same holds through the two
  methods the pages call, \<^verbatim>\<open>db.save_prediction\<close> and \<^verbatim>\<open>db.get_user_predictions\<close>.
\<close>

theorem record_then_list:
  "(recordPrediction st u path c conf = Inr (st', rid) \<longrightarrow>
      listByUser st' u = listByUser st u @
        [\<lparr>pid = rid, user_id = u, image_path = path, prediction_class = c,
          confidence = conf, created_at = clock st\<rparr>]
      \<and> (\<forall>v. v \<noteq> u \<longrightarrow> listByUser st' v = listByUser st v))
   \<and> (save_prediction spec_database st u path c conf = Inr st' \<longrightarrow>
      (\<exists>r. get_user_predictions spec_database st' u = Inr (listByUser st u @ [r])
         \<and> r \<in> set (listByUser st' u)
         \<and> user_id r = u \<and> image_path r = path \<and> prediction_class r = c
         \<and> confidence r = conf))"
proof -
  have a: "listByUser st' u = listByUser st u @
        [\<lparr>pid = rid, user_id = u, image_path = path, prediction_class = c,
          confidence = conf, created_at = clock st\<rparr>]
      \<and> (\<forall>v. v \<noteq> u \<longrightarrow> listByUser st' v = listByUser st v)"
    if "recordPrediction st u path c conf = Inr (st', rid)"
    using that by (simp add: recordPrediction_Inr listByUser_def)
  have b: "\<exists>r. get_user_predictions spec_database st' u = Inr (listByUser st u @ [r])
         \<and> r \<in> set (listByUser st' u)
         \<and> user_id r = u \<and> image_path r = path \<and> prediction_class r = c
         \<and> confidence r = conf"
    if "save_prediction spec_database st u path c conf = Inr st'"
  proof -
    let ?r = "\<lparr>pid = Suc (length (predictions st)), user_id = u, image_path = path,
            prediction_class = c, confidence = conf, created_at = clock st\<rparr>"
    have "st' = st\<lparr>predictions := predictions st @ [?r], clock := Suc (clock st)\<rparr>"
      using that by (simp add: spec_save_prediction)
    then have "listByUser st' u = listByUser st u @ [?r]"
      by (simp add: listByUser_def)
    then show ?thesis
      by (intro exI [of _ ?r]) (simp add: spec_database_def)
  qed
  show ?thesis using a b by blast
qed

theorem record_then_list_witness:
  "recordPrediction example_store 1 ''uploads/eye.png'' ''Moderate'' 0.7
     = Inr (db example_saved, 1)
   \<and> save_prediction spec_database example_store 1 ''uploads/eye.png'' ''Moderate'' 0.7
     = Inr (db example_saved)
   \<and> listByUser (db example_saved) 1 = listByUser example_store 1 @
        [\<lparr>pid = 1, user_id = 1, image_path = ''uploads/eye.png'', prediction_class = ''Moderate'',
          confidence = 0.7, created_at = clock example_store\<rparr>]
   \<and> (\<exists>r. get_user_predictions spec_database (db example_saved) 1
             = Inr (listByUser example_store 1 @ [r])
         \<and> r \<in> set (listByUser (db example_saved) 1)
         \<and> user_id r = 1 \<and> image_path r = ''uploads/eye.png''
         \<and> prediction_class r = ''Moderate'' \<and> confidence r = 0.7)"
proof -
  have h1: "recordPrediction example_store 1 ''uploads/eye.png'' ''Moderate'' 0.7
     = Inr (db example_saved, 1)"
    by (simp add: recordPrediction_def example_saved_def example_store_def)
  have h2: "save_prediction spec_database example_store 1 ''uploads/eye.png'' ''Moderate'' 0.7
     = Inr (db example_saved)"
    using h1 by (simp add: spec_database_def)
  show ?thesis
    using record_then_list [where st = example_store and u = 1
        and path = "''uploads/eye.png''" and c = "''Moderate''" and conf = "0.7"
        and st' = "db example_saved" and rid = 1] h1 h2
    by blast
qed

lemma history_page_empty:
  assumes "user s = Some usr" "get_user_predictions D (db s) (uid usr) = Inr []"
  shows "history_page D env s =
     (Continue, s, [St_title ''Prediction History'', St_info ''No prediction history available.''])"
  using assms by (simp add: history_page_def and_then_def)

lemma listByUser_none:
  "(\<forall>r\<in>set (predictions st). user_id r \<noteq> u) \<Longrightarrow> listByUser st u = []"
  by (simp add: listByUser_def filter_empty_conv)

text \<open>
  C7. For a user with no prediction record the listing of the spec's recorder is the empty
  sequence, returned as a value and not as an error, and \<^verbatim>\<open>history_page\<close> on an empty
  listing shows the title and the notice "No prediction history available." and returns
  without raising and without changing the session or the store.
\<close>

theorem list_empty_history:
  "((\<forall>r\<in>set (predictions st). user_id r \<noteq> u) \<longrightarrow>
      listByUser st u = [] \<and> get_user_predictions spec_database st u = Inr [])
   \<and> (user s = Some usr \<and> get_user_predictions D (db s) (uid usr) = Inr [] \<longrightarrow>
        history_page D env s =
          (Continue, s,
           [St_title ''Prediction History'', St_info ''No prediction history available.'']))
   \<and> (user t = Some usr \<and> (\<forall>r\<in>set (predictions (db t)). user_id r \<noteq> uid usr) \<longrightarrow>
        history_page spec_database env t =
          (Continue, t,
           [St_title ''Prediction History'', St_info ''No prediction history available.'']))"
proof (intro conjI impI)
  assume "\<forall>r\<in>set (predictions st). user_id r \<noteq> u"
  then show "listByUser st u = []" by (rule listByUser_none)
  then show "get_user_predictions spec_database st u = Inr []"
    by (simp add: spec_database_def)
next
  assume "user s = Some usr \<and> get_user_predictions D (db s) (uid usr) = Inr []"
  then show "history_page D env s =
          (Continue, s,
           [St_title ''Prediction History'', St_info ''No prediction history available.''])"
    using history_page_empty by blast
next
  assume h: "user t = Some usr \<and> (\<forall>r\<in>set (predictions (db t)). user_id r \<noteq> uid usr)"
  then have "get_user_predictions spec_database (db t) (uid usr) = Inr []"
    by (simp add: spec_database_def listByUser_none)
  then show "history_page spec_database env t =
          (Continue, t,
           [St_title ''Prediction History'', St_info ''No prediction history available.''])"
    using h history_page_empty by blast
qed

theorem list_empty_history_witness:
  "list_all (\<lambda>r. user_id r \<noteq> 1) (predictions example_store)
   \<and> user example_session = Some alice
   \<and> list_all (\<lambda>r. user_id r \<noteq> uid alice) (predictions (db example_session))
   \<and> listByUser example_store 1 = []
   \<and> get_user_predictions spec_database example_store 1 = Inr []
   \<and> get_user_predictions spec_database (db example_session) (uid alice) = Inr []
   \<and> history_page spec_database (example_env []) example_session =
        (Continue, example_session,
         [St_title ''Prediction History'', St_info ''No prediction history available.''])"
proof -
  have h1: "\<forall>r\<in>set (predictions example_store). user_id r \<noteq> 1"
    by (simp add: example_store_def)
  have h2: "user example_session = Some alice"
    by (simp add: example_session_def)
  have h3: "\<forall>r\<in>set (predictions (db example_session)). user_id r \<noteq> uid alice"
    by (simp add: example_session_def example_store_def)
  have h4: "get_user_predictions spec_database (db example_session) (uid alice) = Inr []"
    by (simp add: spec_database_def listByUser_def example_session_def example_store_def)
  show ?thesis
    using list_empty_history [where st = example_store and u = 1 and s = example_session
        and t = example_session and usr = alice and D = spec_database
        and env = "example_env []"] h1 h2 h3 h4
    unfolding list_all_iff by blast
qed

subsection \<open>Authentication\<close>

lemma find_unique_username:
  assumes "distinct (map username xs)" "(u::user_row) \<in> set xs"
  shows "find (\<lambda>x. username x = username u \<and> P x) xs = (if P u then Some u else None)"
  using assms
proof (induction xs)
  case Nil
  then show ?case by simp
next
  case (Cons x xs)
  show ?case
  proof (cases "x = u")
    case True
    then have "username u \<notin> username ` set xs" using Cons.prems(1) by simp
    then have "\<And>y. y \<in> set xs \<Longrightarrow> username y \<noteq> username u"
      by (metis imageI)
    then have "find (\<lambda>x. username x = username u \<and> P x) xs = None"
      unfolding find_None_iff by blast
    then show ?thesis using True by simp
  next
    case False
    then have "u \<in> set xs" using Cons.prems(2) by simp
    moreover have "username x \<noteq> username u"
      using Cons.prems(1) \<open>u \<in> set xs\<close> by auto
    ultimately show ?thesis using Cons by simp
  qed
qed

lemma authenticate_unique:
  assumes "distinct (map username (users st))" "u \<in> set (users st)"
    and "password_credential u = (salt, stored)"
  shows "authenticate st (username u) p
     = (if stored = digest st salt p then Inr u else Inl InvalidCredentials)"
  using find_unique_username [OF assms(1,2),
      of "\<lambda>x. snd (password_credential x) = digest st (fst (password_credential x)) p"]
    assms(3)
  by (simp add: authenticate_def)

lemma createUser_row:
  assumes "distinct (map username (users st))" "createUser st n m p f = Inr (st', u)"
  shows "distinct (map username (users st')) \<and> u \<in> set (users st')
     \<and> username u = n \<and> digest st' = digest st
     \<and> password_credential u = (salt_for st (clock st), digest st (salt_for st (clock st)) p)"
  using assms by (auto simp: createUser_def Let_def split: if_splits)

lemma login_form_spec:
  "login_form spec_database s
     (inp\<lparr>login_username := n, login_password := p, login_submit := True\<rparr>)
   = (case authenticate (db s) n p of
        Inr u \<Rightarrow> (Rerun, s\<lparr>user := Some u, page := ''home''\<rparr>, [St_success ''Login successful!''])
      | Inl e \<Rightarrow> (Continue, s, [St_error ''Invalid username or password'']))"
  by (simp add: login_form_def spec_database_def split: sum.splits)

text \<open>
  C6. On the authentication of the spec, with unique usernames and a stored credential that
  is the salted digest of the user's password: submitting the login form with the username
  and that password succeeds and the session user becomes that user (and the page
  \<open>home\<close>). Submitting it with a password whose salted digest differs from the stored one
  fails with InvalidCredentials, which the form shows as "Invalid username or password",
  and leaves the session unchanged; when the digest has no collisions this is every wrong
  password. The credential that \<open>createUser\<close> stores is of this kind: a user just created
  authenticates with the password given at sign-up.
\<close>

theorem login_checks_password:
  assumes "distinct (map username (users (db s)))" and "u \<in> set (users (db s))"
    and "password_credential u = (salt, digest (db s) salt password)"
  shows "authenticate (db s) (username u) password = Inr u
     \<and> login_form spec_database s
          (inp\<lparr>login_username := username u, login_password := password,
               login_submit := True\<rparr>)
        = (Rerun, s\<lparr>user := Some u, page := ''home''\<rparr>, [St_success ''Login successful!''])
     \<and> (\<forall>wrong. digest (db s) salt wrong \<noteq> digest (db s) salt password \<longrightarrow>
          authenticate (db s) (username u) wrong = Inl InvalidCredentials
          \<and> login_form spec_database s
               (inp\<lparr>login_username := username u, login_password := wrong,
                    login_submit := True\<rparr>)
             = (Continue, s, [St_error ''Invalid username or password'']))
     \<and> (inj (digest (db s) salt) \<longrightarrow>
          (\<forall>wrong. wrong \<noteq> password \<longrightarrow>
             authenticate (db s) (username u) wrong = Inl InvalidCredentials
             \<and> login_form spec_database s
                  (inp\<lparr>login_username := username u, login_password := wrong,
                       login_submit := True\<rparr>)
                = (Continue, s, [St_error ''Invalid username or password''])))
     \<and> (\<forall>name mail fname st' new.
          createUser (db s) name mail password fname = Inr (st', new) \<longrightarrow>
            authenticate st' name password = Inr new)"
proof -
  have ok: "authenticate (db s) (username u) password = Inr u"
    using authenticate_unique [OF assms] by simp
  have bad: "authenticate (db s) (username u) wrong = Inl InvalidCredentials"
    if "digest (db s) salt wrong \<noteq> digest (db s) salt password" for wrong
    using authenticate_unique [OF assms, of wrong] that by simp
  have bad_inj: "digest (db s) salt wrong \<noteq> digest (db s) salt password"
    if "inj (digest (db s) salt)" "wrong \<noteq> password" for wrong
    using that by (simp add: inj_eq)
  have fresh: "authenticate st' name password = Inr new"
    if c: "createUser (db s) name mail password fname = Inr (st', new)"
    for name mail fname st' new
  proof -
    from createUser_row [OF assms(1) c]
    have d: "distinct (map username (users st'))" and m: "new \<in> set (users st')"
      and n: "username new = name" and dg: "digest st' = digest (db s)"
      and cr: "password_credential new
         = (salt_for (db s) (clock (db s)),
            digest (db s) (salt_for (db s) (clock (db s))) password)"
      by simp_all
    show ?thesis
      using authenticate_unique [OF d m cr, of password] n dg by simp
  qed
  show ?thesis
    using ok bad bad_inj fresh by (simp add: login_form_spec)
qed

lemma example_digest_inj: "inj (example_digest salt)"
  by (simp add: inj_def example_digest_def)

theorem login_checks_password_witness:
  "distinct (map username (users (db (initial_state example_store))))
   \<and> alice \<in> set (users (db (initial_state example_store)))
   \<and> password_credential alice
       = (''s'', digest (db (initial_state example_store)) ''s'' ''s3cret'')
   \<and> inj (digest (db (initial_state example_store)) ''s'')
   \<and> ''guess'' \<noteq> ''s3cret''
   \<and> digest (db (initial_state example_store)) ''s'' ''guess''
       \<noteq> digest (db (initial_state example_store)) ''s'' ''s3cret''
   \<and> login_form spec_database (initial_state example_store)
        (idle\<lparr>login_username := ''alice'', login_password := ''s3cret'', login_submit := True\<rparr>)
      = (Rerun, (initial_state example_store)\<lparr>user := Some alice, page := ''home''\<rparr>,
         [St_success ''Login successful!''])
   \<and> login_form spec_database (initial_state example_store)
        (idle\<lparr>login_username := ''alice'', login_password := ''guess'', login_submit := True\<rparr>)
      = (Continue, initial_state example_store, [St_error ''Invalid username or password''])
   \<and> createUser (db (initial_state example_store)) ''bob'' ''bob@example.org'' ''s3cret'' ''Bob''
      = Inr (example_store\<lparr>users := [alice,
               \<lparr>uid = 2, username = ''bob'', email = ''bob@example.org'',
                password_credential = (''ss'', example_digest ''ss'' ''s3cret''),
                full_name = ''Bob'', user_created_at = 1\<rparr>], clock := 2\<rparr>,
             \<lparr>uid = 2, username = ''bob'', email = ''bob@example.org'',
              password_credential = (''ss'', example_digest ''ss'' ''s3cret''),
              full_name = ''Bob'', user_created_at = 1\<rparr>)
   \<and> authenticate (example_store\<lparr>users := [alice,
               \<lparr>uid = 2, username = ''bob'', email = ''bob@example.org'',
                password_credential = (''ss'', example_digest ''ss'' ''s3cret''),
                full_name = ''Bob'', user_created_at = 1\<rparr>], clock := 2\<rparr>) ''bob'' ''s3cret''
      = Inr \<lparr>uid = 2, username = ''bob'', email = ''bob@example.org'',
              password_credential = (''ss'', example_digest ''ss'' ''s3cret''),
              full_name = ''Bob'', user_created_at = 1\<rparr>"
proof -
  have h1: "distinct (map username (users (db (initial_state example_store))))"
    by (simp add: initial_state_def example_store_def)
  have h2: "alice \<in> set (users (db (initial_state example_store)))"
    by (simp add: initial_state_def example_store_def)
  have h3: "password_credential alice
       = (''s'', digest (db (initial_state example_store)) ''s'' ''s3cret'')"
    by (simp add: alice_def initial_state_def example_store_def)
  have h4: "inj (digest (db (initial_state example_store)) ''s'')"
    by (simp add: initial_state_def example_store_def example_digest_inj)
  have h5: "''guess'' \<noteq> ''s3cret''"
    by simp
  have h6: "digest (db (initial_state example_store)) ''s'' ''guess''
       \<noteq> digest (db (initial_state example_store)) ''s'' ''s3cret''"
    by (simp add: initial_state_def example_store_def example_digest_def)
  have h7: "createUser (db (initial_state example_store)) ''bob'' ''bob@example.org''
        ''s3cret'' ''Bob''
      = Inr (example_store\<lparr>users := [alice,
               \<lparr>uid = 2, username = ''bob'', email = ''bob@example.org'',
                password_credential = (''ss'', example_digest ''ss'' ''s3cret''),
                full_name = ''Bob'', user_created_at = 1\<rparr>], clock := 2\<rparr>,
             \<lparr>uid = 2, username = ''bob'', email = ''bob@example.org'',
              password_credential = (''ss'', example_digest ''ss'' ''s3cret''),
              full_name = ''Bob'', user_created_at = 1\<rparr>)"
    by (simp add: createUser_def initial_state_def example_store_def alice_def
          example_salt_for_def Let_def)
  have n: "username alice = ''alice''"
    by (simp add: alice_def)
  show ?thesis
    using login_checks_password [OF h1 h2 h3, of idle] h1 h2 h3 h4 h5 h6 h7 n
    by simp
qed

end
